theory Spec2Isabelle
  imports Main "HOL-Library.Sublist"
begin

section \<open>Data model of \<open>app.py\<close>\<close>

text \<open>
  A captured phrase (\<open>sr.AudioData\<close>) is opaque to the program: it is only queued,
  dequeued and handed to a recognizer. It is identified here by a number.
\<close>

datatype audio = Audio nat

text \<open>
  The exceptions a call into \<open>speech_recognition\<close> can raise, by the \<open>except\<close>
  clause of \<open>transcribe_audio_data\<close> that matches them: \<open>sr.UnknownValueError\<close>,
  \<open>sr.RequestError\<close> (with \<open>str(e)\<close>), and any other instance of \<open>Exception\<close>
  (with \<open>type(e).__name__\<close> and \<open>str(e)\<close>).
\<close>

datatype py_exception =
    UnknownValueError
  | RequestError string
  | OtherException string string

text \<open>
  Everything outside the program: the two recognizers of the shared \<open>sr.Recognizer\<close>
  (audio and language tag to text, or a raised exception), and whether the calls to the
  microphone, the background listener, the thread library and the listener's stop function
  return normally.
\<close>

record env =
  recognize_google :: "audio \<Rightarrow> string \<Rightarrow> py_exception + string"
  recognize_sphinx :: "audio \<Rightarrow> string \<Rightarrow> py_exception + string"
  microphone_ok :: bool
  listen_in_background_ok :: bool
  thread_start_ok :: bool
  stopper_ok :: bool
  record_phrase :: "py_exception + audio"

section \<open>\<open>transcribe_audio_data\<close> (lines 24--52)\<close>

text \<open>
  The four failure messages. The source file holds the bytes \<open>E2 80 9A C3 84 C3 AE\<close>
  between \<open>unintelligible\<close> and \<open>try\<close>; they are kept as they are.
\<close>

definition msg_unintelligible :: string where
  "msg_unintelligible =
     ''Speech was unintelligible '' @
     [CHR 0xE2, CHR 0x80, CHR 0x9A, CHR 0xC3, CHR 0x84, CHR 0xC3, CHR 0xAE] @
     '' try speaking more clearly or increasing microphone volume.''"

definition msg_request :: "string \<Rightarrow> string \<Rightarrow> string" where
  "msg_request api_choice e =
     ''Could not contact the recognition service ('' @ api_choice @
     ''). Technical detail: '' @ e"

definition msg_unexpected :: "string \<Rightarrow> string \<Rightarrow> string" where
  "msg_unexpected type_name e =
     ''Unexpected error during transcription: '' @ type_name @ '': '' @ e"

definition msg_not_implemented :: "string \<Rightarrow> string" where
  "msg_not_implemented api_choice =
     ''API '' @ [CHR 0x27] @ api_choice @ [CHR 0x27] @ '' not implemented in this demo.''"

text \<open>The body of the \<open>try\<close> block: it returns a pair or raises.\<close>

definition transcribe_try :: "env \<Rightarrow> audio \<Rightarrow> string \<Rightarrow> string \<Rightarrow> py_exception + (bool \<times> string)" where
  "transcribe_try e audio_data api_choice language =
     (if api_choice = ''Google'' then
        (case recognize_google e audio_data language of
           Inl x \<Rightarrow> Inl x
         | Inr text \<Rightarrow> Inr (True, text))
      else if api_choice = ''Sphinx'' then
        (case recognize_sphinx e audio_data language of
           Inl x \<Rightarrow> Inl x
         | Inr text \<Rightarrow> Inr (True, text))
      else Inr (False, msg_not_implemented api_choice))"

text \<open>
  The \<open>except\<close> clauses, in the order of the source. \<open>Inl\<close> is an exception that leaves
  the function; \<open>Inr\<close> is the returned pair \<open>(success, text_or_error_message)\<close>.
\<close>

definition transcribe_audio_data :: "env \<Rightarrow> audio \<Rightarrow> string \<Rightarrow> string \<Rightarrow> py_exception + (bool \<times> string)" where
  "transcribe_audio_data e audio_data api_choice language =
     (case transcribe_try e audio_data api_choice language of
        Inr r \<Rightarrow> Inr r
      | Inl UnknownValueError \<Rightarrow> Inr (False, msg_unintelligible)
      | Inl (RequestError d) \<Rightarrow> Inr (False, msg_request api_choice d)
      | Inl (OtherException n d) \<Rightarrow> Inr (False, msg_unexpected n d))"

section \<open>Program state\<close>

text \<open>
  The module globals of lines 14--19, the two keys of \<open>st.session_state\<close> the program
  uses, and the two resources it creates: the background listeners that are running
  (\<open>recognizer.listen_in_background\<close>) and the worker threads that were started, each
  with its arguments \<open>(api_choice, language)\<close>. \<open>bg_listener\<close> is \<open>None\<close> or the stop
  function of a listener, identified by a number.
\<close>

record state =
  audio_queue :: "audio list"
  bg_listener :: "nat option"
  listening :: bool
  paused :: bool
  transcribed_text :: string
  session_state :: "string \<rightharpoonup> string"
  capture_listeners :: nat
  worker_threads :: "(string \<times> string) list"

text \<open>The widgets read in one run of the script: the four buttons and the two select boxes.\<close>

record buttons =
  start_btn :: bool
  pause_btn :: bool
  stop_btn :: bool
  single_btn :: bool
  api_choice :: string
  language :: string

section \<open>The background callback and the worker (lines 57--90)\<close>

text \<open>\<open>background_callback\<close>: \<open>audio_queue.put(audio)\<close> on an unbounded queue.\<close>

definition background_callback :: "audio \<Rightarrow> state \<Rightarrow> state" where
  "background_callback a s = s\<lparr>audio_queue := audio_queue s @ [a]\<rparr>"

text \<open>Lines 82--85: the accumulated text with one more result.\<close>

definition append_text :: "string \<Rightarrow> string \<Rightarrow> string" where
  "append_text t result = (if t \<noteq> [] then t @ '' '' @ result else result)"

text \<open>Lines 80--90: what the worker does with the pair \<open>(success, result)\<close>.\<close>

definition store_result :: "bool \<times> string \<Rightarrow> state \<Rightarrow> state" where
  "store_result r s =
     (if fst r then
        s\<lparr>transcribed_text := append_text (transcribed_text s) (snd r),
          session_state := (session_state s)
            (''last_transcription'' \<mapsto> append_text (transcribed_text s) (snd r))\<rparr>
      else s\<lparr>session_state := (session_state s)(''last_error'' \<mapsto> snd r)\<rparr>)"

text \<open>
  Where the worker thread stands. \<open>Head\<close>: before the tests of \<open>listening\<close> and
  \<open>paused\<close> (lines 70--71). \<open>Getting\<close>: past both tests, in
  \<open>audio_queue.get(timeout=0.5)\<close> (line 75). \<open>Holding a\<close>: \<open>a\<close> has been dequeued and
  is being transcribed, its result not yet stored (lines 79--90). \<open>Exited\<close>: the loop
  has ended. \<open>Crashed\<close>: an exception left \<open>worker_process\<close>.
\<close>

datatype pc = Head | Getting | Holding audio | Exited | Crashed py_exception

text \<open>
  One step of the worker thread started with \<open>(api_choice, language)\<close>. Other threads
  run between two steps. A \<open>get\<close> on an empty queue ends with \<open>queue.Empty\<close> and
  \<open>continue\<close>; a phrase that arrives during the wait is a \<open>background_callback\<close> before
  this step.
\<close>

fun worker_step :: "env \<Rightarrow> string \<Rightarrow> string \<Rightarrow> state \<times> pc \<Rightarrow> state \<times> pc" where
  "worker_step e api lang (s, Head) =
     (if \<not> listening s then (s, Exited)
      else if paused s then (s, Head)
      else (s, Getting))"
| "worker_step e api lang (s, Getting) =
     (case audio_queue s of
        [] \<Rightarrow> (s, Head)
      | a # q \<Rightarrow> (s\<lparr>audio_queue := q\<rparr>, Holding a))"
| "worker_step e api lang (s, Holding a) =
     (case transcribe_audio_data e a api lang of
        Inl x \<Rightarrow> (s, Crashed x)
      | Inr r \<Rightarrow> (store_result r s, Head))"
| "worker_step e api lang (s, Exited) = (s, Exited)"
| "worker_step e api lang (s, Crashed x) = (s, Crashed x)"

section \<open>The handlers of the script (lines 113--116 and 136--195)\<close>

text \<open>Lines 14--19, at the top of every run of the script.\<close>

definition init_globals :: "state \<Rightarrow> state" where
  "init_globals s =
     s\<lparr>audio_queue := [], bg_listener := None, listening := False, paused := False,
       transcribed_text := []\<rparr>"

text \<open>Lines 113--116.\<close>

definition session_defaults :: "state \<Rightarrow> state" where
  "session_defaults s =
     (let m = session_state s;
          m1 = (if m ''last_transcription'' = None then m(''last_transcription'' \<mapsto> []) else m);
          m2 = (if m1 ''last_error'' = None then m1(''last_error'' \<mapsto> []) else m1)
      in s\<lparr>session_state := m2\<rparr>)"

text \<open>
  Lines 137--155. An exception of the microphone or of the calibration leaves the state
  as it was; one of \<open>listen_in_background\<close> or of the thread comes after the
  assignments before it.
\<close>

definition start_handler :: "env \<Rightarrow> buttons \<Rightarrow> state \<Rightarrow> state" where
  "start_handler e b s =
     (if start_btn b \<and> \<not> listening s then
        if \<not> microphone_ok e then s
        else
          let s1 = s\<lparr>listening := True, paused := False,
                     session_state := (session_state s)
                       (''last_error'' \<mapsto> [], ''last_transcription'' \<mapsto> [])\<rparr>
          in if \<not> listen_in_background_ok e then s1
             else
               let s2 = s1\<lparr>bg_listener := Some (capture_listeners s1),
                          capture_listeners := capture_listeners s1 + 1\<rparr>
               in if \<not> thread_start_ok e then s2
                  else s2\<lparr>worker_threads := worker_threads s2 @ [(api_choice b, language b)]\<rparr>
      else s)"

text \<open>Lines 158--166.\<close>

definition pause_handler :: "buttons \<Rightarrow> state \<Rightarrow> state" where
  "pause_handler b s =
     (if pause_btn b then (if listening s then s\<lparr>paused := \<not> paused s\<rparr> else s) else s)"

text \<open>Lines 169--178. The stop function is called only when \<open>bg_listener\<close> is set.\<close>

definition stop_handler :: "env \<Rightarrow> buttons \<Rightarrow> state \<Rightarrow> state" where
  "stop_handler e b s =
     (if stop_btn b \<and> listening s then
        (case bg_listener s of
           None \<Rightarrow> s\<lparr>listening := False, paused := False\<rparr>
         | Some k \<Rightarrow>
             if stopper_ok e
             then s\<lparr>capture_listeners := capture_listeners s - 1,
                    listening := False, paused := False\<rparr>
             else s)
      else s)"

text \<open>
  Lines 181--195. Every exception inside the \<open>try\<close>, also the \<open>KeyError\<close> of a missing
  key, ends in \<open>st.error\<close> and changes nothing.
\<close>

definition single_shot_handler :: "env \<Rightarrow> buttons \<Rightarrow> state \<Rightarrow> state" where
  "single_shot_handler e b s =
     (if single_btn b then
        (case record_phrase e of
           Inl x \<Rightarrow> s
         | Inr a \<Rightarrow>
             (case transcribe_audio_data e a (api_choice b) (language b) of
                Inl x \<Rightarrow> s
              | Inr r \<Rightarrow>
                  if fst r then
                    (case session_state s ''last_transcription'' of
                       None \<Rightarrow> s
                     | Some t \<Rightarrow>
                         s\<lparr>session_state := (session_state s)
                             (''last_transcription'' \<mapsto> append_text t (snd r))\<rparr>)
                  else s\<lparr>session_state := (session_state s)(''last_error'' \<mapsto> snd r)\<rparr>))
      else s)"

text \<open>
  One run of the script, top to bottom, in the thread that runs it. The save button
  (lines 125--134) writes a file and touches none of the state above.
\<close>

definition script_run :: "env \<Rightarrow> buttons \<Rightarrow> state \<Rightarrow> state" where
  "script_run e b s =
     single_shot_handler e b
       (stop_handler e b
         (pause_handler b
           (start_handler e b
             (session_defaults (init_globals s)))))"

section \<open>Schedules\<close>

text \<open>
  What can happen while a worker runs, between two runs of the script: the listener
  queues a phrase, or the worker takes a step. The handlers run only inside a run of the
  script, after lines 14--19 (\<open>script_run\<close>).
\<close>

datatype event = Push audio | Work

fun step :: "env \<Rightarrow> string \<Rightarrow> string \<Rightarrow> event \<Rightarrow> state \<times> pc \<Rightarrow> state \<times> pc" where
  "step e api lang (Push a) (s, p) = (background_callback a s, p)"
| "step e api lang Work (s, p) = worker_step e api lang (s, p)"

fun exec :: "env \<Rightarrow> string \<Rightarrow> string \<Rightarrow> event list \<Rightarrow> state \<times> pc \<Rightarrow> state \<times> pc" where
  "exec e api lang [] c = c"
| "exec e api lang (ev # evs) c = exec e api lang evs (step e api lang ev c)"



text \<open>
  What the worker does to the state with the phrases of a list, one after the other
  (lines 79--90 for each).
\<close>

fun store_all :: "env \<Rightarrow> string \<Rightarrow> string \<Rightarrow> audio list \<Rightarrow> state \<Rightarrow> state" where
  "store_all e api lang [] s = s"
| "store_all e api lang (a # q) s =
     (case transcribe_audio_data e a api lang of
        Inl x \<Rightarrow> s
      | Inr r \<Rightarrow> store_all e api lang q (store_result r s))"

text \<open>The texts of the phrases that are transcribed, and the messages of those that are not.\<close>

fun successes :: "env \<Rightarrow> string \<Rightarrow> string \<Rightarrow> audio list \<Rightarrow> string list" where
  "successes e api lang [] = []"
| "successes e api lang (a # q) =
     (case transcribe_audio_data e a api lang of
        Inr (True, t) \<Rightarrow> t # successes e api lang q
      | _ \<Rightarrow> successes e api lang q)"

fun failures :: "env \<Rightarrow> string \<Rightarrow> string \<Rightarrow> audio list \<Rightarrow> string list" where
  "failures e api lang [] = []"
| "failures e api lang (a # q) =
     (case transcribe_audio_data e a api lang of
        Inr (False, m) \<Rightarrow> m # failures e api lang q
      | _ \<Rightarrow> failures e api lang q)"

section \<open>A concrete environment and session\<close>

text \<open>
  A recognizer that hears \<open>hello\<close> in phrase 1 and \<open>world\<close> in phrase 3, finds phrase 2
  unintelligible, cannot reach the service for phrase 4 and fails in some other way on
  every other phrase; all devices work.
\<close>

definition env0 :: env where
  "env0 = \<lparr>recognize_google = (\<lambda>a l.
       if a = Audio 1 then Inr ''hello''
       else if a = Audio 2 then Inl UnknownValueError
       else if a = Audio 3 then Inr ''world''
       else if a = Audio 4 then Inl (RequestError ''down'')
       else Inl (OtherException ''ValueError'' ''bad'')),
     recognize_sphinx = (\<lambda>a l. Inl (RequestError ''missing PocketSphinx module'')),
     microphone_ok = True, listen_in_background_ok = True, thread_start_ok = True,
     stopper_ok = True, record_phrase = Inr (Audio 1)\<rparr>"

text \<open>The state of a process before the first run of the script.\<close>

definition fresh :: state where
  "fresh = \<lparr>audio_queue = [], bg_listener = None, listening = False, paused = False,
     transcribed_text = [], session_state = Map.empty, capture_listeners = 0,
     worker_threads = []\<rparr>"

definition pressed_start :: buttons where
  "pressed_start = \<lparr>start_btn = True, pause_btn = False, stop_btn = False,
     single_btn = False, api_choice = ''Google'', language = ''en-US''\<rparr>"

text \<open>The state after a first run of the script with the start button pressed.\<close>

definition started :: state where
  "started = script_run env0 pressed_start fresh"

definition pressed_single :: buttons where
  "pressed_single = \<lparr>start_btn = False, pause_btn = False, stop_btn = False,
     single_btn = True, api_choice = ''Google'', language = ''en-US''\<rparr>"

text \<open>Runs of the script with only the pause button, or only the stop button, pressed.\<close>

definition pressed_pause :: buttons where
  "pressed_pause = \<lparr>start_btn = False, pause_btn = True, stop_btn = False,
     single_btn = False, api_choice = ''Google'', language = ''en-US''\<rparr>"

definition pressed_stop :: buttons where
  "pressed_stop = \<lparr>start_btn = False, pause_btn = False, stop_btn = True,
     single_btn = False, api_choice = ''Google'', language = ''en-US''\<rparr>"

text \<open>
  A running session in which the listener has queued phrases 1 and 3 and the worker has
  not taken a step yet.
\<close>

definition queued_session :: state where
  "queued_session = fst (exec env0 ''Google'' ''en-US''
     [Push (Audio 1), Push (Audio 3)] (started, Head))"

text \<open>
  The same session two worker steps later: the worker has dequeued phrase 1 and is
  transcribing it, phrase 3 is in the queue.
\<close>

definition mid_session :: "state \<times> pc" where
  "mid_session = exec env0 ''Google'' ''en-US''
     [Push (Audio 1), Push (Audio 3), Work, Work] (started, Head)"

text \<open>
  The state after a session and a press of the stop button: phrases 1 and 2 were queued
  and processed, the first one transcribed and the second one not, and then the script
  ran with the stop button pressed.
\<close>

definition after_session :: state where
  "after_session = script_run env0 pressed_stop (fst (exec env0 ''Google'' ''en-US''
     [Push (Audio 1), Push (Audio 2), Work, Work, Work, Work, Work, Work]
     (started, Head)))"

section \<open>Properties of \<open>transcribe_audio_data\<close>\<close>

lemma transcribe_audio_data_returns:
  "\<exists>b m. transcribe_audio_data e a api lang = Inr (b, m)"
  by (auto simp: transcribe_audio_data_def transcribe_try_def
      split: sum.splits py_exception.splits)

section \<open>The worker on a schedule\<close>

lemma exec_append: "exec e api lang (xs @ ys) c = exec e api lang ys (exec e api lang xs c)"
  by (induction xs arbitrary: c) auto

lemma exec_Work_Suc:
  "exec e api lang (replicate (Suc n) Work) c = exec e api lang (replicate n Work) (worker_step e api lang c)"
  by (cases c) simp

lemma store_result_fields [simp]:
  "audio_queue (store_result r s) = audio_queue s"
  "listening (store_result r s) = listening s"
  "paused (store_result r s) = paused s"
  "bg_listener (store_result r s) = bg_listener s"
  "capture_listeners (store_result r s) = capture_listeners s"
  "worker_threads (store_result r s) = worker_threads s"
  by (simp_all add: store_result_def)

lemma store_result_queue_update:
  "store_result r (s\<lparr>audio_queue := q\<rparr>) = (store_result r s)\<lparr>audio_queue := q\<rparr>"
  by (simp add: store_result_def)

lemma store_all_fields [simp]:
  "audio_queue (store_all e api lang q s) = audio_queue s"
  "listening (store_all e api lang q s) = listening s"
  "paused (store_all e api lang q s) = paused s"
  by (induction q arbitrary: s) (simp_all split: sum.splits)

lemma store_all_queue_update:
  "store_all e api lang q (s\<lparr>audio_queue := q'\<rparr>) = (store_all e api lang q s)\<lparr>audio_queue := q'\<rparr>"
  by (induction q arbitrary: s) (simp_all add: store_result_queue_update split: sum.splits)

lemma worker_idle:
  "audio_queue s = [] \<Longrightarrow> listening s \<Longrightarrow> \<not> paused s \<Longrightarrow> p = Head \<or> p = Getting \<Longrightarrow>
   fst (exec e api lang (replicate n Work) (s, p)) = s \<and>
   (snd (exec e api lang (replicate n Work) (s, p)) = Head \<or>
    snd (exec e api lang (replicate n Work) (s, p)) = Getting)"
proof (induction n arbitrary: p)
  case 0
  then show ?case by simp
next
  case (Suc n)
  from Suc.prems(4) show ?case
  proof
    assume "p = Head"
    then have "exec e api lang (replicate (Suc n) Work) (s, p) = exec e api lang (replicate n Work) (s, Getting)"
      using Suc.prems by simp
    then show ?thesis using Suc.IH [of Getting] Suc.prems by simp
  next
    assume "p = Getting"
    then have "exec e api lang (replicate (Suc n) Work) (s, p) = exec e api lang (replicate n Work) (s, Head)"
      using Suc.prems by simp
    then show ?thesis using Suc.IH [of Head] Suc.prems by simp
  qed
qed

lemma replicate3: "replicate (3 * Suc n) x = x # x # x # replicate (3 * n) x"
  by (simp add: numeral_3_eq_3)

lemma worker_drain:
  "audio_queue s = q \<Longrightarrow> listening s \<Longrightarrow> \<not> paused s \<Longrightarrow>
   exec e api lang (replicate (3 * length q) Work) (s, Head) =
     (store_all e api lang q (s\<lparr>audio_queue := []\<rparr>), Head)"
proof (induction q arbitrary: s)
  case Nil
  then show ?case by simp
next
  case (Cons a q)
  obtain b m where r: "transcribe_audio_data e a api lang = Inr (b, m)"
    using transcribe_audio_data_returns by blast
  let ?s1 = "store_result (b, m) (s\<lparr>audio_queue := q\<rparr>)"
  have "exec e api lang (replicate (3 * length (a # q)) Work) (s, Head) =
        exec e api lang (replicate (3 * length q) Work) (?s1, Head)"
    unfolding length_Cons replicate3 using Cons.prems r by simp
  also have "\<dots> = (store_all e api lang q (?s1\<lparr>audio_queue := []\<rparr>), Head)"
    using Cons.prems by (intro Cons.IH) simp_all
  also have "?s1\<lparr>audio_queue := []\<rparr> = store_result (b, m) (s\<lparr>audio_queue := []\<rparr>)"
    by (simp add: store_result_def)
  finally show ?case using r by simp
qed



lemma failures_append:
  "failures e api lang (xs @ ys) = failures e api lang xs @ failures e api lang ys"
  by (induction xs) (simp_all split: sum.splits prod.splits bool.splits)







lemma store_all_last_error:
  "session_state (store_all e api lang q s) ''last_error'' =
     (if failures e api lang q = [] then session_state s ''last_error''
      else Some (last (failures e api lang q)))"
proof (induction q arbitrary: s)
  case Nil
  show ?case by simp
next
  case (Cons a q)
  obtain b m where r: "transcribe_audio_data e a api lang = Inr (b, m)"
    using transcribe_audio_data_returns by blast
  show ?case using r Cons.IH [of "store_result (b, m) s"]
    by (cases b) (simp_all add: store_result_def)
qed

lemma store_all_transcribed_text:
  "transcribed_text (store_all e api lang q s) =
     foldl append_text (transcribed_text s) (successes e api lang q)"
proof (induction q arbitrary: s)
  case Nil
  show ?case by simp
next
  case (Cons a q)
  obtain b m where r: "transcribe_audio_data e a api lang = Inr (b, m)"
    using transcribe_audio_data_returns by blast
  show ?case using r Cons.IH [of "store_result (b, m) s"]
    by (cases b) (simp_all add: store_result_def)
qed

lemma stopped_head:
  "\<not> listening s \<Longrightarrow> exec e api lang (replicate (Suc n) Work) (s, Head) = (s, Exited)"
  by (induction n) simp_all

lemma single_shot_handler_fields [simp]:
  "audio_queue (single_shot_handler e b s) = audio_queue s"
  "listening (single_shot_handler e b s) = listening s"
  "paused (single_shot_handler e b s) = paused s"
  "bg_listener (single_shot_handler e b s) = bg_listener s"
  "capture_listeners (single_shot_handler e b s) = capture_listeners s"
  "worker_threads (single_shot_handler e b s) = worker_threads s"
  by (simp_all add: single_shot_handler_def split: sum.splits option.splits)

lemma handlers_skipped_without_start:
  "\<not> start_btn b \<Longrightarrow>
   stop_handler e b (pause_handler b (start_handler e b (session_defaults (init_globals s)))) =
     session_defaults (init_globals s)"
  by (simp add: stop_handler_def pause_handler_def start_handler_def session_defaults_def
      init_globals_def Let_def)

lemma run_without_start:
  assumes "\<not> start_btn b"
  shows "\<not> paused (script_run e b s)" and "\<not> listening (script_run e b s)"
    and "audio_queue (script_run e b s) = []" and "bg_listener (script_run e b s) = None"
    and "capture_listeners (script_run e b s) = capture_listeners s"
    and "worker_threads (script_run e b s) = worker_threads s"
  unfolding script_run_def handlers_skipped_without_start [OF assms]
  by (simp_all add: session_defaults_def init_globals_def Let_def)

lemma start_handler_guard: "listening s \<Longrightarrow> start_handler e b s = s"
  by (simp add: start_handler_def)

lemma init_globals_not_listening: "\<not> listening (session_defaults (init_globals s))"
  by (simp add: init_globals_def session_defaults_def Let_def)

lemma started_eq:
  "started = \<lparr>audio_queue = [], bg_listener = Some 0, listening = True, paused = False,
     transcribed_text = [],
     session_state = [''last_transcription'' \<mapsto> [], ''last_error'' \<mapsto> []],
     capture_listeners = 1, worker_threads = [(''Google'', ''en-US'')]\<rparr>"
  by (simp add: started_def script_run_def single_shot_handler_def stop_handler_def
      pause_handler_def start_handler_def session_defaults_def init_globals_def fresh_def
      pressed_start_def env0_def fun_upd_twist)

lemma msgs_distinct:
  "msg_unintelligible \<noteq> msg_request api d"
  "msg_unintelligible \<noteq> msg_not_implemented api"
  "msg_unintelligible \<noteq> msg_unexpected n d"
  "msg_request api d \<noteq> msg_not_implemented api'"
  "msg_request api d \<noteq> msg_unexpected n d'"
  "msg_not_implemented api \<noteq> msg_unexpected n d"
  by (simp_all add: msg_unintelligible_def msg_request_def msg_not_implemented_def
      msg_unexpected_def)

section \<open>The claims\<close>

text \<open>
  C1. Three phrases A, B, C are queued in this order; the recognizer returns \<open>hello\<close> for
  A, raises \<open>UnknownValueError\<close> for B and returns \<open>world\<close> for C. Once the worker has
  taken the nine steps of three passes of its loop, and however many more, the
  accumulated text and \<open>last_transcription\<close> are \<open>hello world\<close>, \<open>last_error\<close> is the
  message produced for B, and the queue is empty.
\<close>

theorem scenario_hello_world:
  assumes "listening s" and "\<not> paused s" and "audio_queue s = []"
    and "transcribed_text s = []"
    and "recognize_google e A lang = Inr ''hello''"
    and "recognize_google e B lang = Inl UnknownValueError"
    and "recognize_google e C lang = Inr ''world''"
    and "9 \<le> n"
  shows "transcribed_text (fst (exec e ''Google'' lang
           ([Push A, Push B, Push C] @ replicate n Work) (s, Head))) = ''hello world'' \<and>
         session_state (fst (exec e ''Google'' lang
           ([Push A, Push B, Push C] @ replicate n Work) (s, Head))) ''last_transcription'' =
             Some ''hello world'' \<and>
         session_state (fst (exec e ''Google'' lang
           ([Push A, Push B, Push C] @ replicate n Work) (s, Head))) ''last_error'' =
             Some msg_unintelligible \<and>
         audio_queue (fst (exec e ''Google'' lang
           ([Push A, Push B, Push C] @ replicate n Work) (s, Head))) = []"
proof -
  let ?s1 = "s\<lparr>audio_queue := [A, B, C]\<rparr>"
  let ?s2 = "store_all e ''Google'' lang [A, B, C] (?s1\<lparr>audio_queue := []\<rparr>)"
  obtain k where n: "n = 3 * length [A, B, C] + k"
    using assms(8) by (auto simp: le_iff_add)
  have pushed: "exec e ''Google'' lang [Push A, Push B, Push C] (s, Head) = (?s1, Head)"
    using assms(3) by (simp add: background_callback_def)
  have drained:
    "exec e ''Google'' lang (replicate (3 * length [A, B, C]) Work) (?s1, Head) = (?s2, Head)"
    using assms(1,2) by (intro worker_drain) simp_all
  have s2: "audio_queue ?s2 = []" "listening ?s2" "\<not> paused ?s2"
    using assms(1,2) by (simp_all del: store_all.simps)
  have idle: "fst (exec e ''Google'' lang (replicate k Work) (?s2, Head)) = ?s2"
    using worker_idle [OF s2, of Head e "''Google''" lang k] by blast
  have final: "fst (exec e ''Google'' lang
      ([Push A, Push B, Push C] @ replicate n Work) (s, Head)) = ?s2"
    unfolding n replicate_add exec_append pushed drained by (rule idle)
  have tA: "transcribe_audio_data e A ''Google'' lang = Inr (True, ''hello'')"
    and tB: "transcribe_audio_data e B ''Google'' lang = Inr (False, msg_unintelligible)"
    and tC: "transcribe_audio_data e C ''Google'' lang = Inr (True, ''world'')"
    using assms(5-7) by (simp_all add: transcribe_audio_data_def transcribe_try_def)
  show ?thesis
    unfolding final using assms(4) tA tB tC
    by (simp add: store_result_def append_text_def)
qed

theorem scenario_hello_world_witness:
  "listening started \<and> \<not> paused started \<and> audio_queue started = [] \<and>
   transcribed_text started = [] \<and>
   recognize_google env0 (Audio 1) ''en-US'' = Inr ''hello'' \<and>
   recognize_google env0 (Audio 2) ''en-US'' = Inl UnknownValueError \<and>
   recognize_google env0 (Audio 3) ''en-US'' = Inr ''world'' \<and>
   transcribed_text (fst (exec env0 ''Google'' ''en-US''
     ([Push (Audio 1), Push (Audio 2), Push (Audio 3)] @ replicate 9 Work)
     (started, Head))) = ''hello world'' \<and>
   session_state (fst (exec env0 ''Google'' ''en-US''
     ([Push (Audio 1), Push (Audio 2), Push (Audio 3)] @ replicate 9 Work)
     (started, Head))) ''last_error'' = Some msg_unintelligible"
  using scenario_hello_world [of started env0 "Audio 1" "''en-US''" "Audio 2" "Audio 3" 9]
  by (simp add: started_eq env0_def)

text \<open>
  C2. Error isolation. The worker is at the head of its loop, listening and not paused;
  the first queued phrase fails to transcribe and the second one succeeds. After one pass
  the failure message is in \<open>last_error\<close> and the worker is back at the head of the loop
  with the rest of the queue; after the second pass the text of the second phrase has
  been appended to the transcript, and the worker is at the head of the loop again.
\<close>

theorem error_isolation:
  assumes "listening s" and "\<not> paused s" and "audio_queue s = a # b # q"
    and "transcribe_audio_data e a api lang = Inr (False, m)"
    and "transcribe_audio_data e b api lang = Inr (True, t)"
  shows "exec e api lang (replicate 3 Work) (s, Head) =
           (s\<lparr>audio_queue := b # q,
              session_state := (session_state s)(''last_error'' \<mapsto> m)\<rparr>, Head) \<and>
         snd (exec e api lang (replicate 6 Work) (s, Head)) = Head \<and>
         transcribed_text (fst (exec e api lang (replicate 6 Work) (s, Head))) =
           append_text (transcribed_text s) t \<and>
         session_state (fst (exec e api lang (replicate 6 Work) (s, Head)))
           ''last_transcription'' = Some (append_text (transcribed_text s) t) \<and>
         session_state (fst (exec e api lang (replicate 6 Work) (s, Head)))
           ''last_error'' = Some m \<and>
         audio_queue (fst (exec e api lang (replicate 6 Work) (s, Head))) = q"
  using assms by (simp add: numeral_eq_Suc store_result_def)

theorem error_isolation_witness:
  "listening (started\<lparr>audio_queue := [Audio 2, Audio 3]\<rparr>) \<and>
   \<not> paused (started\<lparr>audio_queue := [Audio 2, Audio 3]\<rparr>) \<and>
   transcribe_audio_data env0 (Audio 2) ''Google'' ''en-US'' = Inr (False, msg_unintelligible) \<and>
   transcribe_audio_data env0 (Audio 3) ''Google'' ''en-US'' = Inr (True, ''world'') \<and>
   snd (exec env0 ''Google'' ''en-US'' (replicate 6 Work)
     (started\<lparr>audio_queue := [Audio 2, Audio 3]\<rparr>, Head)) = Head \<and>
   transcribed_text (fst (exec env0 ''Google'' ''en-US'' (replicate 6 Work)
     (started\<lparr>audio_queue := [Audio 2, Audio 3]\<rparr>, Head))) = ''world'' \<and>
   session_state (fst (exec env0 ''Google'' ''en-US'' (replicate 6 Work)
     (started\<lparr>audio_queue := [Audio 2, Audio 3]\<rparr>, Head))) ''last_error'' =
       Some msg_unintelligible"
  using error_isolation [of "started\<lparr>audio_queue := [Audio 2, Audio 3]\<rparr>"
      "Audio 2" "Audio 3" "[]" env0 "''Google''" "''en-US''" msg_unintelligible "''world''"]
  by (simp add: started_eq env0_def transcribe_audio_data_def transcribe_try_def
      append_text_def)

text \<open>
  C9. The four kinds of failure. When the recognizer raises \<open>UnknownValueError\<close> the
  function returns failure with the unintelligible-speech message; when it raises
  \<open>RequestError\<close>, failure with the service message, which carries the name of the API and
  the detail; when the API is neither \<open>Google\<close> nor \<open>Sphinx\<close>, failure with the
  not-implemented message, which carries its name; on any other exception, failure with
  the unexpected-error message, which carries the type and the detail. The four messages
  differ from one another whatever the names and details are, so a caller can tell the
  four outcomes apart.
\<close>

theorem failure_kinds_distinct:
  "(transcribe_try e a1 api1 l1 = Inl UnknownValueError \<longrightarrow>
      transcribe_audio_data e a1 api1 l1 = Inr (False, msg_unintelligible)) \<and>
   (transcribe_try e a2 api2 l2 = Inl (RequestError d2) \<longrightarrow>
      transcribe_audio_data e a2 api2 l2 = Inr (False, msg_request api2 d2)) \<and>
   (api3 \<noteq> ''Google'' \<and> api3 \<noteq> ''Sphinx'' \<longrightarrow>
      transcribe_audio_data e a3 api3 l3 = Inr (False, msg_not_implemented api3)) \<and>
   (transcribe_try e a4 api4 l4 = Inl (OtherException n4 d4) \<longrightarrow>
      transcribe_audio_data e a4 api4 l4 = Inr (False, msg_unexpected n4 d4)) \<and>
   msg_unintelligible \<noteq> msg_request api2 d2 \<and>
   msg_unintelligible \<noteq> msg_not_implemented api3 \<and>
   msg_unintelligible \<noteq> msg_unexpected n4 d4 \<and>
   msg_request api2 d2 \<noteq> msg_not_implemented api3 \<and>
   msg_request api2 d2 \<noteq> msg_unexpected n4 d4 \<and>
   msg_not_implemented api3 \<noteq> msg_unexpected n4 d4"
  by (simp add: msgs_distinct transcribe_audio_data_def transcribe_try_def)

theorem failure_kinds_distinct_witness:
  "transcribe_try env0 (Audio 2) ''Google'' ''en-US'' = Inl UnknownValueError \<and>
   transcribe_audio_data env0 (Audio 2) ''Google'' ''en-US'' = Inr (False, msg_unintelligible) \<and>
   transcribe_try env0 (Audio 4) ''Google'' ''fr-FR'' = Inl (RequestError ''down'') \<and>
   transcribe_audio_data env0 (Audio 4) ''Google'' ''fr-FR'' =
     Inr (False, msg_request ''Google'' ''down'') \<and>
   ''IBM'' \<noteq> ''Google'' \<and> ''IBM'' \<noteq> ''Sphinx'' \<and>
   transcribe_audio_data env0 (Audio 1) ''IBM'' ''en-US'' =
     Inr (False, msg_not_implemented ''IBM'') \<and>
   transcribe_try env0 (Audio 5) ''Google'' ''en-US'' =
     Inl (OtherException ''ValueError'' ''bad'') \<and>
   transcribe_audio_data env0 (Audio 5) ''Google'' ''en-US'' =
     Inr (False, msg_unexpected ''ValueError'' ''bad'')"
  using failure_kinds_distinct [of env0 "Audio 2" "''Google''" "''en-US''"
      "Audio 4" "''Google''" "''fr-FR''" "''down''" "''IBM''" "Audio 1" "''en-US''"
      "Audio 5" "''Google''" "''en-US''" "''ValueError''" "''bad''"]
  by (simp add: transcribe_try_def env0_def)

text \<open>
  C10. Totality of \<open>transcribe_audio_data\<close>. For every phrase, every name of an API and
  every language tag the function returns a pair of a flag and a string: no exception
  leaves it. Whenever the body of the \<open>try\<close>, that is the call of the recognizer, raises
  an exception, the pair returned has the flag \<open>False\<close>.
\<close>

theorem transcribe_audio_data_total:
  "(\<exists>b m. transcribe_audio_data e a api lang = Inr (b, m)) \<and>
   (transcribe_try e a api lang = Inl x \<longrightarrow>
      (\<exists>m. transcribe_audio_data e a api lang = Inr (False, m)))"
  by (auto simp: transcribe_audio_data_def split: sum.splits py_exception.splits)

theorem transcribe_audio_data_total_witness:
  "transcribe_try env0 (Audio 4) ''Google'' ''en-US'' = Inl (RequestError ''down'') \<and>
   transcribe_audio_data env0 (Audio 4) ''Google'' ''en-US'' =
     Inr (False, msg_request ''Google'' ''down'')"
  using transcribe_audio_data_total
    [of env0 "Audio 4" "''Google''" "''en-US''" "RequestError ''down''"]
  by (simp add: transcribe_audio_data_def transcribe_try_def env0_def)



text \<open>
  C8. Only the last error is kept. A failure stores its message in \<open>last_error\<close> in place
  of whatever was there, in the worker and in the single-shot handler alike. After the
  worker has gone through the queue, \<open>last_error\<close> is the message of the last phrase of
  the queue that failed; when none failed it is what it was before.
\<close>

theorem last_error_only:
  assumes "listening s" and "\<not> paused s"
    and "single_btn b" and "record_phrase e = Inr a"
    and "transcribe_audio_data e a (api_choice b) (language b) = Inr (False, m)"
  shows "session_state (fst (exec e api lang (replicate (3 * length (audio_queue s)) Work)
           (s, Head))) ''last_error'' =
           (if failures e api lang (audio_queue s) = [] then session_state s ''last_error''
            else Some (last (failures e api lang (audio_queue s)))) \<and>
         session_state (store_result (False, m') s') ''last_error'' = Some m' \<and>
         session_state (single_shot_handler e b s') ''last_error'' = Some m"
proof -
  have "exec e api lang (replicate (3 * length (audio_queue s)) Work) (s, Head) =
      (store_all e api lang (audio_queue s) (s\<lparr>audio_queue := []\<rparr>), Head)"
    using assms(1,2) by (intro worker_drain) simp_all
  then have "session_state (fst (exec e api lang (replicate (3 * length (audio_queue s)) Work)
           (s, Head))) ''last_error'' =
           (if failures e api lang (audio_queue s) = [] then session_state s ''last_error''
            else Some (last (failures e api lang (audio_queue s))))"
    by (simp add: store_all_last_error)
  moreover have "session_state (store_result (False, m') s') ''last_error'' = Some m'"
    by (simp add: store_result_def)
  moreover have "session_state (single_shot_handler e b s') ''last_error'' = Some m"
    using assms(3-5) by (simp add: single_shot_handler_def)
  ultimately show ?thesis by blast
qed

theorem last_error_only_witness:
  "listening (started\<lparr>audio_queue := [Audio 2, Audio 1, Audio 4, Audio 3]\<rparr>) \<and>
   \<not> paused (started\<lparr>audio_queue := [Audio 2, Audio 1, Audio 4, Audio 3]\<rparr>) \<and>
   single_btn pressed_single \<and>
   record_phrase (env0\<lparr>record_phrase := Inr (Audio 2)\<rparr>) = Inr (Audio 2) \<and>
   transcribe_audio_data (env0\<lparr>record_phrase := Inr (Audio 2)\<rparr>) (Audio 2)
     (api_choice pressed_single) (language pressed_single) = Inr (False, msg_unintelligible) \<and>
   session_state (fst (exec (env0\<lparr>record_phrase := Inr (Audio 2)\<rparr>) ''Google'' ''en-US''
     (replicate 12 Work)
     (started\<lparr>audio_queue := [Audio 2, Audio 1, Audio 4, Audio 3]\<rparr>, Head))) ''last_error'' =
     Some (msg_request ''Google'' ''down'') \<and>
   session_state (single_shot_handler (env0\<lparr>record_phrase := Inr (Audio 2)\<rparr>) pressed_single
     (started\<lparr>session_state := (session_state started)(''last_error'' \<mapsto> ''old'')\<rparr>))
     ''last_error'' = Some msg_unintelligible"
  using last_error_only [where s = "started\<lparr>audio_queue := [Audio 2, Audio 1, Audio 4, Audio 3]\<rparr>"
      and b = pressed_single and e = "env0\<lparr>record_phrase := Inr (Audio 2)\<rparr>"
      and a = "Audio 2" and m = msg_unintelligible and api = "''Google''" and lang = "''en-US''"
      and m' = "''x''"
      and s' = "started\<lparr>session_state := (session_state started)(''last_error'' \<mapsto> ''old'')\<rparr>"]
  by (simp add: started_eq env0_def pressed_single_def transcribe_audio_data_def
      transcribe_try_def)

text \<open>
  C3 fails on the code. The body of the stop handler would clear \<open>listening\<close> and
  cancel the listener if it ran in the state of a running session, and a worker at the
  head of its loop leaves it once the flag is cleared (\<open>stopped_head\<close>). But a press
  of the stop button is a run of the script: line 17 clears \<open>listening\<close> before the
  guard of line 169 is tested, so lines 172--176 do not run
  (\<open>handlers_skipped_without_start\<close>). In the session below the worker is transcribing
  phrase 1 when the stop button is pressed: after that run the listener is still
  running, \<open>bg_listener\<close>, the one reference to its stop function, is \<open>None\<close>, and
  the next step of the worker puts \<open>hello\<close> into \<open>last_transcription\<close>.
\<close>

theorem stop_press_skips_stop:
  "listening (fst mid_session) \<and>
   snd mid_session = Holding (Audio 1) \<and>
   audio_queue (fst mid_session) = [Audio 3] \<and>
   capture_listeners (fst mid_session) = 1 \<and>
   \<not> listening (stop_handler env0 pressed_stop (fst mid_session)) \<and>
   capture_listeners (stop_handler env0 pressed_stop (fst mid_session)) = 0 \<and>
   capture_listeners (script_run env0 pressed_stop (fst mid_session)) = 1 \<and>
   bg_listener (script_run env0 pressed_stop (fst mid_session)) = None \<and>
   session_state (script_run env0 pressed_stop (fst mid_session)) ''last_transcription'' =
     Some [] \<and>
   session_state (fst (worker_step env0 ''Google'' ''en-US''
     (script_run env0 pressed_stop (fst mid_session), snd mid_session)))
     ''last_transcription'' = Some ''hello''"
proof -
  have mid: "mid_session =
      (\<lparr>audio_queue = [Audio 3], bg_listener = Some 0, listening = True, paused = False,
        transcribed_text = [],
        session_state = [''last_transcription'' \<mapsto> [], ''last_error'' \<mapsto> []],
        capture_listeners = 1, worker_threads = [(''Google'', ''en-US'')]\<rparr>,
       Holding (Audio 1))"
    by (simp add: mid_session_def started_eq background_callback_def)
  have t: "transcribe_audio_data env0 (Audio (Suc 0)) ''Google'' ''en-US'' =
      Inr (True, ''hello'')"
    by (simp add: env0_def transcribe_audio_data_def transcribe_try_def)
  have ok: "stopper_ok env0"
    by (simp add: env0_def)
  show ?thesis
    unfolding mid
    by (simp add: t ok script_run_def single_shot_handler_def stop_handler_def
        pause_handler_def start_handler_def session_defaults_def init_globals_def
        pressed_stop_def store_result_def append_text_def)
qed

text \<open>
  C4 fails on the code. The body of the pause handler would set \<open>paused\<close> if it ran
  in the state of a running session, and the worker tests the flag at the head of its
  loop. But a press of the pause button is a run of the script: line 17 clears
  \<open>listening\<close> before line 159 is tested, so the handler takes its \<open>else\<close> branch and
  \<open>paused\<close> is never set (\<open>run_without_start\<close>); the same run replaces the queue
  (line 15). In the session below phrases 1 and 3 are in the queue when the pause button
  is pressed: after that run the flag is not set, the queue is empty and \<open>listening\<close>
  is cleared; after a second press, the one meant to resume, the worker leaves its loop
  and neither phrase has been transcribed.
\<close>

theorem pause_press_does_not_pause:
  "listening queued_session \<and>
   audio_queue queued_session = [Audio 1, Audio 3] \<and>
   paused (pause_handler pressed_pause queued_session) \<and>
   \<not> paused (script_run env0 pressed_pause queued_session) \<and>
   \<not> listening (script_run env0 pressed_pause queued_session) \<and>
   audio_queue (script_run env0 pressed_pause queued_session) = [] \<and>
   snd (exec env0 ''Google'' ''en-US'' (replicate 6 Work)
     (script_run env0 pressed_pause (script_run env0 pressed_pause queued_session), Head)) =
     Exited \<and>
   transcribed_text (fst (exec env0 ''Google'' ''en-US'' (replicate 6 Work)
     (script_run env0 pressed_pause (script_run env0 pressed_pause queued_session), Head))) =
     [] \<and>
   session_state (fst (exec env0 ''Google'' ''en-US'' (replicate 6 Work)
     (script_run env0 pressed_pause (script_run env0 pressed_pause queued_session), Head)))
     ''last_transcription'' = Some []"
proof -
  have q: "queued_session =
      \<lparr>audio_queue = [Audio 1, Audio 3], bg_listener = Some 0, listening = True,
        paused = False, transcribed_text = [],
        session_state = [''last_transcription'' \<mapsto> [], ''last_error'' \<mapsto> []],
        capture_listeners = 1, worker_threads = [(''Google'', ''en-US'')]\<rparr>"
    by (simp add: queued_session_def started_eq background_callback_def)
  show ?thesis
    unfolding q
    by (simp add: script_run_def single_shot_handler_def stop_handler_def
        pause_handler_def start_handler_def session_defaults_def init_globals_def
        pressed_pause_def numeral_eq_Suc)
qed

text \<open>
  C6 fails on the code. The guard \<open>not listening\<close> of the start handler makes it do
  nothing in a state where the flag is set (\<open>start_handler_guard\<close>), but every run of
  the script first executes line 17, so the flag is never set when the handler is
  reached (\<open>init_globals_not_listening\<close>). A second run of the script with the start
  button pressed, in the state the first one left with its listener and worker running,
  creates a second listener and a second worker thread and is not a no-op.
\<close>

theorem start_twice_duplicates:
  "listening started \<and> capture_listeners started = 1 \<and>
   worker_threads started = [(''Google'', ''en-US'')] \<and>
   capture_listeners (script_run env0 pressed_start started) = 2 \<and>
   worker_threads (script_run env0 pressed_start started) =
     [(''Google'', ''en-US''), (''Google'', ''en-US'')] \<and>
   script_run env0 pressed_start started \<noteq> started"
  by (simp add: started_eq script_run_def single_shot_handler_def stop_handler_def
      pause_handler_def start_handler_def session_defaults_def init_globals_def
      pressed_start_def env0_def)

text \<open>
  C7. Whatever happened before, and so also after a start and a stop: in a run of the
  script in which the start button is pressed and the microphone opens, the state after
  the start handler has an empty accumulated text (line 19 of the same run) and an empty
  queue (line 15), and \<open>last_transcription\<close> and \<open>last_error\<close> are the empty string
  (lines 146--147). When no other button is pressed this is the state at the end of the
  run. The first phrase transcribed after that gives a transcript that is exactly its
  text.
\<close>

theorem restart_resets:
  assumes "start_btn b" and "microphone_ok e"
  shows "listening (start_handler e b (session_defaults (init_globals s))) \<and>
         transcribed_text (start_handler e b (session_defaults (init_globals s))) = [] \<and>
         audio_queue (start_handler e b (session_defaults (init_globals s))) = [] \<and>
         session_state (start_handler e b (session_defaults (init_globals s)))
           ''last_transcription'' = Some [] \<and>
         session_state (start_handler e b (session_defaults (init_globals s)))
           ''last_error'' = Some [] \<and>
         (\<not> pause_btn b \<and> \<not> stop_btn b \<and> \<not> single_btn b \<longrightarrow>
            script_run e b s = start_handler e b (session_defaults (init_globals s))) \<and>
         (transcribe_audio_data e a api lang = Inr (True, t) \<longrightarrow>
            transcribed_text (fst (exec e api lang [Push a, Work, Work, Work]
              (start_handler e b (session_defaults (init_globals s)), Head))) = t)"
proof -
  let ?s = "start_handler e b (session_defaults (init_globals s))"
  have f: "listening ?s" "transcribed_text ?s = []" "audio_queue ?s = []" "\<not> paused ?s"
    "session_state ?s ''last_transcription'' = Some []"
    "session_state ?s ''last_error'' = Some []"
    using assms
    by (simp_all add: start_handler_def session_defaults_def init_globals_def Let_def)
  have r: "\<not> pause_btn b \<and> \<not> stop_btn b \<and> \<not> single_btn b \<longrightarrow> script_run e b s = ?s"
    by (simp add: script_run_def single_shot_handler_def stop_handler_def pause_handler_def)
  have w: "transcribe_audio_data e a api lang = Inr (True, t) \<longrightarrow>
      transcribed_text (fst (exec e api lang [Push a, Work, Work, Work] (?s, Head))) = t"
    using f(1-4) by (simp add: background_callback_def store_result_def append_text_def)
  from f r w show ?thesis by blast
qed

theorem restart_resets_witness:
  "start_btn pressed_start \<and> microphone_ok env0 \<and>
   \<not> pause_btn pressed_start \<and> \<not> stop_btn pressed_start \<and> \<not> single_btn pressed_start \<and>
   transcribe_audio_data env0 (Audio 3) ''Google'' ''en-US'' = Inr (True, ''world'') \<and>
   \<not> listening after_session \<and>
   session_state after_session ''last_transcription'' = Some ''hello'' \<and>
   session_state after_session ''last_error'' = Some msg_unintelligible \<and>
   listening (script_run env0 pressed_start after_session) \<and>
   transcribed_text (script_run env0 pressed_start after_session) = [] \<and>
   session_state (script_run env0 pressed_start after_session) ''last_transcription'' =
     Some [] \<and>
   session_state (script_run env0 pressed_start after_session) ''last_error'' = Some [] \<and>
   transcribed_text (fst (exec env0 ''Google'' ''en-US'' [Push (Audio 3), Work, Work, Work]
     (script_run env0 pressed_start after_session, Head))) = ''world''"
proof -
  have prev: "\<not> listening after_session \<and>
      session_state after_session ''last_transcription'' = Some ''hello'' \<and>
      session_state after_session ''last_error'' = Some msg_unintelligible"
    by (simp add: after_session_def started_eq env0_def background_callback_def
        script_run_def single_shot_handler_def stop_handler_def pause_handler_def
        start_handler_def session_defaults_def init_globals_def pressed_stop_def
        transcribe_audio_data_def transcribe_try_def store_result_def append_text_def)
  have b: "start_btn pressed_start \<and> \<not> pause_btn pressed_start \<and>
      \<not> stop_btn pressed_start \<and> \<not> single_btn pressed_start"
    by (simp add: pressed_start_def)
  have e: "microphone_ok env0"
    by (simp add: env0_def)
  have t: "transcribe_audio_data env0 (Audio 3) ''Google'' ''en-US'' = Inr (True, ''world'')"
    by (simp add: env0_def transcribe_audio_data_def transcribe_try_def)
  from restart_resets [of pressed_start env0 after_session "Audio 3" "''Google''" "''en-US''"
      "''world''"] b e t prev
  show ?thesis by simp
qed

end
